theory Spec2Isabelle
  imports Main "HOL-Library.Multiset"
begin

section \<open>Data model\<close>

text \<open>
  The repository holds three HTTP client wrappers: \<open>httpclient.CommonHTTPClient\<close> over
  \<open>net/http\<close> (with its own retry loop), \<open>hwaasresty.CommonHTTPClient\<close> over resty, and
  \<open>httpclient2.Client\<close>. Go's \<open>(value, error)\<close> returns are sums, \<open>nil\<close>-able pointers
  and interfaces are options, a Go \<open>map[string]string\<close> that is only ranged over is the
  list of its entries in the order the \<open>range\<close> statement happens to visit them, and time
  is a logical clock counted in the unit of \<open>time.Duration\<close>.
\<close>

datatype error =
    Canceled
  | DeadlineExceeded
  | ClientTimeout
  | TransportError string
  | ReadError string
  | ParseError string
  | InvalidMethod string
  | UnsupportedMethod
  | MarshalError string
  | Wrapped string error

text \<open>
  An \<open>io.Reader\<close>: the bytes it still yields, and how it ends (\<open>None\<close> is a clean
  \<open>io.EOF\<close>, \<open>Some e\<close> is the error it reports after the bytes).
\<close>

record reader =
  content :: string
  failure :: "error option"

text \<open>\<open>context.Context\<close>: its deadline and the instant its owner cancels it, if any.\<close>

record Context =
  deadline :: "nat option"
  cancelAt :: "nat option"

text \<open>\<open>url.URL\<close>, the fields the clients use.\<close>

record URL =
  Scheme :: string
  Host :: string
  Path :: string
  RawQuery :: string

text \<open>\<open>http.Header\<close> and \<open>url.Values\<close> are both \<open>map[string][]string\<close>.\<close>

type_synonym Values = "(string \<times> string list) list"

record response =
  StatusCode :: int
  Header :: Values
  Body :: "reader option"

datatype send_result = Response response | SendError error

text \<open>
  What one call of \<open>c.client.Do(req)\<close> is handed: the attempt's index, the clock, the
  request line and headers, the request's context, and \<open>req.Body\<close> as it stands at that
  moment.
\<close>

record wire =
  w_attempt :: nat
  w_now :: nat
  w_ctx :: Context
  w_Method :: string
  w_URL :: URL
  w_Header :: Values
  w_Body :: "reader option"

text \<open>
  What the call gives back: the \<open>(resp, err)\<close> pair, how many bytes it read off
  \<open>req.Body\<close>, and how long it took.
\<close>

record reply =
  result :: send_result
  consumed :: nat
  duration :: nat

type_synonym transport = "wire \<Rightarrow> reply"

text \<open>\<open>http.Client\<close>: its \<open>Timeout\<close> and its round tripper.\<close>

record http_Client =
  Timeout :: int
  Transport :: transport

text \<open>
  The functions of \<open>net/url\<close>, \<open>net/http\<close> and \<open>net/textproto\<close> that the clients call and
  whose code is not part of the repository: they are parameters of the model.
\<close>

record stdlib =
  url_Parse :: "string \<Rightarrow> error + URL"
  ResolveReference :: "URL \<Rightarrow> URL \<Rightarrow> URL"
  ParseQuery :: "string \<Rightarrow> Values"
  Encode :: "Values \<Rightarrow> string"
  URL_String :: "URL \<Rightarrow> string"
  validMethod :: "string \<Rightarrow> bool"
  CanonicalMIMEHeaderKey :: "string \<Rightarrow> string"
  base64_EncodeToString :: "string \<Rightarrow> string"

section \<open>Library behaviour the clients rely on\<close>

text \<open>\<open>Values.Set\<close> replaces the values of a key, \<open>Values.Add\<close> appends one.\<close>

fun Values_Set :: "string \<Rightarrow> string \<Rightarrow> Values \<Rightarrow> Values" where
  "Values_Set k v [] = [(k, [v])]"
| "Values_Set k v ((k', vs) # q) =
     (if k' = k then (k, [v]) # q else (k', vs) # Values_Set k v q)"

fun Values_Add :: "string \<Rightarrow> string \<Rightarrow> Values \<Rightarrow> Values" where
  "Values_Add k v [] = [(k, [v])]"
| "Values_Add k v ((k', vs) # q) =
     (if k' = k then (k, vs @ [v]) # q else (k', vs) # Values_Add k v q)"

text \<open>\<open>Header.Set\<close> canonicalises the key, then replaces its values.\<close>

definition Header_Set :: "stdlib \<Rightarrow> string \<Rightarrow> string \<Rightarrow> Values \<Rightarrow> Values" where
  "Header_Set L k v h = Values_Set (CanonicalMIMEHeaderKey L k) v h"


text \<open>
  A context is done from the earlier of its cancellation and its deadline on;
  \<open>ctx.Err()\<close> tells which of the two it was.
\<close>

fun earlier :: "nat option \<Rightarrow> nat option \<Rightarrow> nat option" where
  "earlier None b = b"
| "earlier (Some x) None = Some x"
| "earlier (Some x) (Some y) = Some (min x y)"

definition ctx_done_at :: "Context \<Rightarrow> nat option" where
  "ctx_done_at ctx = earlier (cancelAt ctx) (deadline ctx)"

definition ctx_Err :: "Context \<Rightarrow> nat \<Rightarrow> error option" where
  "ctx_Err ctx t =
     (case ctx_done_at ctx of
        None \<Rightarrow> None
      | Some d \<Rightarrow>
          (if t < d then None
           else if cancelAt ctx = Some d then Some Canceled
           else Some DeadlineExceeded))"

text \<open>
  \<open>context.WithTimeout(parent, d)\<close> called at time \<open>t\<close>: the child's deadline is
  \<open>t + d\<close> unless the parent's is earlier; the parent's cancellation reaches the child.
\<close>

definition WithTimeout :: "Context \<Rightarrow> nat \<Rightarrow> int \<Rightarrow> Context" where
  "WithTimeout parent t d =
     parent\<lparr>deadline := earlier (deadline parent) (Some (t + nat d))\<rparr>"

text \<open>
  \<open>http.Client.Do\<close>: a request whose context is already done is not sent; otherwise the
  round trip runs until it answers, or until the request's context is done, or until the
  client's own \<open>Timeout\<close> (counted from the start of this call, when positive) has
  elapsed, whichever comes first.
\<close>

definition client_limit :: "http_Client \<Rightarrow> nat \<Rightarrow> nat option" where
  "client_limit hc t = (if Timeout hc > 0 then Some (t + nat (Timeout hc)) else None)"

definition http_Client_Do :: "http_Client \<Rightarrow> wire \<Rightarrow> reply" where
  "http_Client_Do hc w =
     (case ctx_Err (w_ctx w) (w_now w) of
        Some e \<Rightarrow> \<lparr>result = SendError e, consumed = 0, duration = 0\<rparr>
      | None \<Rightarrow>
          (let r = Transport hc w
           in case earlier (ctx_done_at (w_ctx w)) (client_limit hc (w_now w)) of
                None \<Rightarrow> r
              | Some l \<Rightarrow>
                  (if w_now w + duration r < l then r
                   else \<lparr>result = SendError (case ctx_Err (w_ctx w) l of
                                                 Some e \<Rightarrow> e | None \<Rightarrow> ClientTimeout),
                         consumed = consumed r, duration = l - w_now w\<rparr>)))"

text \<open>
  Reading a reader to its end, as \<open>io.ReadAll\<close> and \<open>bytes.Buffer.ReadFrom\<close> do: the
  bytes read, and the error unless the reader ended in \<open>io.EOF\<close>.
\<close>

definition ReadAll :: "reader \<Rightarrow> string \<times> error option" where
  "ReadAll r = (content r, failure r)"

text \<open>\<open>bytes.NewReader(b)\<close>.\<close>

definition NewReader :: "string \<Rightarrow> reader" where
  "NewReader b = \<lparr>content = b, failure = None\<rparr>"

text \<open>A reader after \<open>n\<close> of its bytes have been read.\<close>

definition advance :: "nat \<Rightarrow> reader \<Rightarrow> reader" where
  "advance n r = r\<lparr>content := drop n (content r)\<rparr>"

section \<open>The client over net/http: \<open>httpclient.CommonHTTPClient\<close>\<close>

record CommonHTTPClient =
  baseURL :: "URL option"
  defaultHeaders :: "(string \<times> string) list"
  disableLogBody :: bool
  disableLogHeaders :: bool
  disableLogQuery :: bool
  maxRetries :: int
  retryBackoff :: int
  client :: http_Client

record RequestOptions =
  opt_Path :: string
  opt_Method :: string
  opt_Headers :: "(string \<times> string) list"
  opt_QueryParams :: "(string \<times> string) list"
  opt_Body :: "reader option"
  opt_Timeout :: int

text \<open>\<open>http.Request\<close>, the fields the client touches.\<close>

record request =
  rq_ctx :: Context
  rq_Method :: string
  rq_URL :: URL
  rq_Header :: Values
  rq_Body :: "reader option"

text \<open>What the client hands to its \<open>slog.Logger\<close>.\<close>

datatype log_event =
    OutgoingRequest string string string "Values option" string
  | RequestFailed string error
  | ReadBodyFailed string error
  | IncomingResponse int "Values option" string

text \<open>
  How a call ends: with \<open>(resp, nil)\<close>, with \<open>(nil, err)\<close>, with \<open>(nil, nil)\<close>, or in
  the run-time panic of a nil pointer dereference.
\<close>

datatype outcome = Returned response | Failed error | ReturnedNil | Panicked

text \<open>The local variables of \<open>Do\<close> that its retry loop updates.\<close>

record loop_state =
  resp :: "response option"
  lastErr :: "error option"
  reqBody :: "reader option"
  clock :: nat
  calls :: "(wire \<times> reply) list"

text \<open>
  What a call of \<open>Do\<close> leaves behind: its return, the log records in order, every call
  of \<open>c.client.Do\<close> with what it was handed and what it gave back, and the clock.
\<close>

record run =
  outcome :: outcome
  logged :: "log_event list"
  attempts :: "(wire \<times> reply) list"
  finished :: nat

text \<open>
  \<open>NewCommonHTTPClient\<close>: the configuration is copied field by field; a missing
  \<open>HTTPClient\<close> becomes one with a \<open>Timeout\<close> of 30 seconds (in nanoseconds) over the
  default transport.
\<close>

record ClientConfig =
  cfg_BaseURL :: "URL option"
  cfg_DefaultHeaders :: "(string \<times> string) list"
  cfg_DisableLogBody :: bool
  cfg_DisableLogHeaders :: bool
  cfg_DisableLogQuery :: bool
  cfg_MaxRetries :: int
  cfg_RetryBackoff :: int
  cfg_HTTPClient :: "http_Client option"

definition NewCommonHTTPClient :: "transport \<Rightarrow> ClientConfig \<Rightarrow> CommonHTTPClient" where
  "NewCommonHTTPClient defaultTransport cfg =
     \<lparr>baseURL = cfg_BaseURL cfg,
      defaultHeaders = cfg_DefaultHeaders cfg,
      disableLogBody = cfg_DisableLogBody cfg,
      disableLogHeaders = cfg_DisableLogHeaders cfg,
      disableLogQuery = cfg_DisableLogQuery cfg,
      maxRetries = cfg_MaxRetries cfg,
      retryBackoff = cfg_RetryBackoff cfg,
      client = (case cfg_HTTPClient cfg of
                  None \<Rightarrow> \<lparr>Timeout = 30 * 1000000000, Transport = defaultTransport\<rparr>
                | Some hc \<Rightarrow> hc)\<rparr>"

text \<open>The request URL: the path resolved against the base, or parsed on its own.\<close>

definition request_URL :: "stdlib \<Rightarrow> CommonHTTPClient \<Rightarrow> RequestOptions \<Rightarrow> error + URL" where
  "request_URL L c opts =
     (case baseURL c of
        Some b \<Rightarrow>
          Inr (ResolveReference L b
                 \<lparr>Scheme = [], Host = [], Path = opt_Path opts, RawQuery = []\<rparr>)
      | None \<Rightarrow> url_Parse L (opt_Path opts))"

text \<open>The query parameters are set, one by one, on the query the URL already has.\<close>

definition set_params :: "(string \<times> string) list \<Rightarrow> Values \<Rightarrow> Values" where
  "set_params ps q = fold (\<lambda>(k, v). Values_Set k v) ps q"

definition add_query :: "stdlib \<Rightarrow> RequestOptions \<Rightarrow> URL \<Rightarrow> URL" where
  "add_query L opts u =
     (if length (opt_QueryParams opts) > 0
      then u\<lparr>RawQuery := Encode L (set_params (opt_QueryParams opts) (ParseQuery L (RawQuery u)))\<rparr>
      else u)"

text \<open>
  \<open>http.NewRequestWithContext\<close>: an empty method means GET, a method that is not a
  token is refused, the URL string is parsed again, the headers start empty.
\<close>

definition NewRequestWithContext ::
  "stdlib \<Rightarrow> Context \<Rightarrow> string \<Rightarrow> string \<Rightarrow> reader option \<Rightarrow> error + request" where
  "NewRequestWithContext L ctx method urlStr body =
     (let m = (if method = [] then ''GET'' else method)
      in if \<not> validMethod L m then Inl (InvalidMethod m)
         else case url_Parse L urlStr of
                Inl e \<Rightarrow> Inl e
              | Inr u \<Rightarrow>
                  Inr \<lparr>rq_ctx = ctx, rq_Method = m, rq_URL = u, rq_Header = [], rq_Body = body\<rparr>)"

text \<open>The two header loops of \<open>Do\<close>: the defaults first, then the request's own.\<close>

definition set_headers :: "stdlib \<Rightarrow> (string \<times> string) list \<Rightarrow> Values \<Rightarrow> Values" where
  "set_headers L hs h = fold (\<lambda>(k, v). Header_Set L k v) hs h"

definition apply_headers :: "stdlib \<Rightarrow> CommonHTTPClient \<Rightarrow> RequestOptions \<Rightarrow> request \<Rightarrow> request" where
  "apply_headers L c opts req =
     req\<lparr>rq_Header := set_headers L (opt_Headers opts)
                        (set_headers L (defaultHeaders c) (rq_Header req))\<rparr>"

text \<open>The per-request timeout: a context derived from the caller's, when positive.\<close>

definition apply_timeout :: "Context \<Rightarrow> nat \<Rightarrow> RequestOptions \<Rightarrow> request \<Rightarrow> request" where
  "apply_timeout ctx t opts req =
     (if opt_Timeout opts > 0
      then req\<lparr>rq_ctx := WithTimeout ctx t (opt_Timeout opts)\<rparr>
      else req)"

text \<open>
  \<open>logRequest\<close>: unless body logging is off, the body is read to its end and \<open>req.Body\<close>
  is replaced by one reader over the bytes read; one record goes to the logger.
\<close>

definition logRequest ::
  "stdlib \<Rightarrow> CommonHTTPClient \<Rightarrow> request \<Rightarrow> reader option \<Rightarrow> request \<times> log_event" where
  "logRequest L c req body =
     (let (bodyStr, req1) =
            (case body of
               Some b \<Rightarrow>
                 (if \<not> disableLogBody c
                  then (let (bs, err) = ReadAll b
                        in (if err = None then bs else [],
                            req\<lparr>rq_Body := Some (NewReader bs)\<rparr>))
                  else ([], req))
             | None \<Rightarrow> ([], req));
          headers = (if \<not> disableLogHeaders c then Some (rq_Header req1) else None);
          query = (if \<not> disableLogQuery c then RawQuery (rq_URL req1) else [])
      in (req1,
          OutgoingRequest (rq_Method req1) (URL_String L (rq_URL req1)) query headers bodyStr))"

text \<open>\<open>logResponse\<close>: one record for the response.\<close>

definition logResponse :: "CommonHTTPClient \<Rightarrow> response \<Rightarrow> string \<Rightarrow> log_event" where
  "logResponse c r responseBody =
     IncomingResponse (StatusCode r)
       (if \<not> disableLogHeaders c then Some (Header r) else None)
       (if \<not> disableLogBody c \<and> length responseBody > 0 then responseBody else [])"

text \<open>
  One pass through the body of the retry loop, up to its \<open>break\<close> test:
  \<open>resp, lastErr = c.client.Do(req)\<close>. The call reads \<open>req.Body\<close> where it stands and
  leaves it where it stopped reading.
\<close>

definition wire_of :: "request \<Rightarrow> int \<Rightarrow> loop_state \<Rightarrow> wire" where
  "wire_of req attempt st =
     \<lparr>w_attempt = nat attempt, w_now = clock st, w_ctx = rq_ctx req,
      w_Method = rq_Method req, w_URL = rq_URL req, w_Header = rq_Header req,
      w_Body = reqBody st\<rparr>"

text \<open>The pair \<open>(resp, err)\<close> of a result: exactly one of the two is not nil.\<close>

definition resp_of :: "send_result \<Rightarrow> response option" where
  "resp_of x = (case x of Response r \<Rightarrow> Some r | SendError e \<Rightarrow> None)"

definition err_of :: "send_result \<Rightarrow> error option" where
  "err_of x = (case x of Response r \<Rightarrow> None | SendError e \<Rightarrow> Some e)"

definition send_attempt :: "CommonHTTPClient \<Rightarrow> request \<Rightarrow> int \<Rightarrow> loop_state \<Rightarrow> loop_state" where
  "send_attempt c req attempt st =
     (let w = wire_of req attempt st;
          r = http_Client_Do (client c) w
      in \<lparr>resp = resp_of (result r),
          lastErr = err_of (result r),
          reqBody = map_option (advance (consumed r)) (reqBody st),
          clock = clock st + duration r,
          calls = calls st @ [(w, r)]\<rparr>)"

text \<open>
  The test \<open>lastErr == nil && resp.StatusCode < 500\<close>. After a call of \<open>c.client.Do\<close>
  a nil error comes with a response, so \<open>resp\<close> is not nil where its status is read.
\<close>

definition terminal :: "loop_state \<Rightarrow> bool" where
  "terminal st =
     (lastErr st = None \<and> (case resp st of Some x \<Rightarrow> StatusCode x < 500 | None \<Rightarrow> False))"

text \<open>\<open>time.Sleep(d)\<close>: returns at once when \<open>d\<close> is zero or negative.\<close>

definition Sleep :: "int \<Rightarrow> loop_state \<Rightarrow> loop_state" where
  "Sleep d st = st\<lparr>clock := clock st + nat d\<rparr>"

text \<open>The end of the loop body: \<open>if attempt < c.maxRetries { time.Sleep(c.retryBackoff) }\<close>.\<close>

definition pause :: "CommonHTTPClient \<Rightarrow> int \<Rightarrow> loop_state \<Rightarrow> loop_state" where
  "pause c attempt st = (if attempt < maxRetries c then Sleep (retryBackoff c) st else st)"

text \<open>The loop \<open>for attempt = 0; attempt <= c.maxRetries; attempt++\<close>.\<close>

function retry_loop :: "CommonHTTPClient \<Rightarrow> request \<Rightarrow> int \<Rightarrow> loop_state \<Rightarrow> loop_state" where
  "retry_loop c req attempt st =
     (if attempt \<le> maxRetries c
      then (let st1 = send_attempt c req attempt st
            in if terminal st1 then st1
               else retry_loop c req (attempt + 1) (pause c attempt st1))
      else st)"
  by pat_completeness auto
termination
  by (relation "measure (\<lambda>(c, req, attempt, st). nat (maxRetries c - attempt + 1))") auto

declare retry_loop.simps [simp del]

text \<open>
  The response body is read to its end for the log and replaced by a fresh reader over
  the bytes read; a read error ends the call.
\<close>

definition buffer_body :: "response \<Rightarrow> error + response \<times> string" where
  "buffer_body r =
     (case Body r of
        None \<Rightarrow> Inr (r, [])
      | Some b \<Rightarrow>
          (case ReadAll b of
             (responseBody, Some e) \<Rightarrow> Inl e
           | (responseBody, None) \<Rightarrow>
               Inr (r\<lparr>Body := Some (NewReader responseBody)\<rparr>, responseBody)))"

text \<open>
  What follows the loop: the last error is logged and returned; otherwise the response
  is buffered, logged and returned. \<open>resp.Body\<close> on a nil \<open>resp\<close> panics.
\<close>

definition after_loop ::
  "stdlib \<Rightarrow> CommonHTTPClient \<Rightarrow> request \<Rightarrow> log_event list \<Rightarrow> loop_state \<Rightarrow> run" where
  "after_loop L c req lg st =
     (case lastErr st of
        Some e \<Rightarrow>
          \<lparr>outcome = Failed e,
           logged = lg @ [RequestFailed (URL_String L (rq_URL req)) e],
           attempts = calls st, finished = clock st\<rparr>
      | None \<Rightarrow>
          (case resp st of
             None \<Rightarrow>
               \<lparr>outcome = Panicked, logged = lg, attempts = calls st, finished = clock st\<rparr>
           | Some r \<Rightarrow>
               (case buffer_body r of
                  Inl e \<Rightarrow>
                    \<lparr>outcome = Failed e,
                     logged = lg @ [ReadBodyFailed (URL_String L (rq_URL req)) e],
                     attempts = calls st, finished = clock st\<rparr>
                | Inr (r1, responseBody) \<Rightarrow>
                    \<lparr>outcome = Returned r1,
                     logged = lg @ [logResponse c r1 responseBody],
                     attempts = calls st, finished = clock st\<rparr>)))"

text \<open>
  From the built request on: the request is logged once, the loop runs, the result is
  handed back.
\<close>

definition initial :: "request \<Rightarrow> nat \<Rightarrow> loop_state" where
  "initial req t = \<lparr>resp = None, lastErr = None, reqBody = rq_Body req, clock = t, calls = []\<rparr>"

definition execute :: "stdlib \<Rightarrow> CommonHTTPClient \<Rightarrow> nat \<Rightarrow> request \<Rightarrow> reader option \<Rightarrow> run" where
  "execute L c t req body =
     (let (req1, ev) = logRequest L c req body
      in after_loop L c req1 [ev] (retry_loop c req1 0 (initial req1 t)))"

text \<open>The request as it stands when the loop is reached, or the error that ends \<open>Do\<close> before.\<close>

definition build_request ::
  "stdlib \<Rightarrow> CommonHTTPClient \<Rightarrow> Context \<Rightarrow> nat \<Rightarrow> RequestOptions \<Rightarrow> error + request" where
  "build_request L c ctx t opts =
     (case request_URL L c opts of
        Inl e \<Rightarrow> Inl e
      | Inr u \<Rightarrow>
          (case NewRequestWithContext L ctx (opt_Method opts)
                  (URL_String L (add_query L opts u)) (opt_Body opts) of
             Inl e \<Rightarrow> Inl e
           | Inr req \<Rightarrow> Inr (apply_timeout ctx t opts (apply_headers L c opts req))))"

text \<open>\<open>CommonHTTPClient.Do\<close>, called at time \<open>t\<close>.\<close>

definition Do :: "stdlib \<Rightarrow> CommonHTTPClient \<Rightarrow> Context \<Rightarrow> nat \<Rightarrow> RequestOptions \<Rightarrow> run" where
  "Do L c ctx t opts =
     (case build_request L c ctx t opts of
        Inl e \<Rightarrow> \<lparr>outcome = Failed e, logged = [], attempts = [], finished = t\<rparr>
      | Inr req \<Rightarrow> execute L c t req (opt_Body opts))"

section \<open>The client over resty: \<open>hwaasresty.CommonHTTPClient\<close>\<close>







section \<open>The option-configured client: \<open>httpclient2.Client\<close>\<close>

datatype AuthMethod = AuthNone | AuthBasic | AuthBearer | AuthApiKey | AuthOAuth










section \<open>A small instance of the library, to run the clients on concrete inputs\<close>

text \<open>
  The functions below stand for the library's on the inputs the examples of this
  theory use: URLs of the form \<open>scheme://host/path?query\<close> or \<open>/path?query\<close> without
  escapes, user information, fragments or dot segments, query keys and values of
  unreserved characters, header keys and methods of letters, digits and hyphens. On such
  inputs \<open>url.Parse\<close> fails only on a control character, \<open>Values.Encode\<close> sorts by
  key, and \<open>CanonicalMIMEHeaderKey\<close> capitalises the first letter and every letter after
  a hyphen. No example uses basic authentication, and the Base64 encoder is left as the
  identity. The general theorems hold for every library; only the concrete runs use
  this instance.
\<close>

definition is_CTL :: "char \<Rightarrow> bool" where
  "is_CTL ch = ((of_char ch :: nat) < 32 \<or> (of_char ch :: nat) = 127)"

definition cut :: "char \<Rightarrow> string \<Rightarrow> string \<times> string" where
  "cut sep s = (takeWhile (\<lambda>x. x \<noteq> sep) s, drop 1 (dropWhile (\<lambda>x. x \<noteq> sep) s))"

fun fields :: "char \<Rightarrow> string \<Rightarrow> string list" where
  "fields sep [] = [[]]"
| "fields sep (x # xs) =
     (if x = sep then [] # fields sep xs
      else (case fields sep xs of [] \<Rightarrow> [[x]] | f # fs \<Rightarrow> (x # f) # fs))"

definition simple_Parse :: "string \<Rightarrow> error + URL" where
  "simple_Parse s =
     (if list_ex is_CTL s then Inl (ParseError s)
      else (let (rest, q) = cut CHR ''?'' s;
                sch = takeWhile (\<lambda>x. x \<noteq> CHR '':'') rest;
                after = drop (length sch) rest
            in if take 3 after = ''://''
               then Inr \<lparr>Scheme = sch,
                         Host = takeWhile (\<lambda>x. x \<noteq> CHR ''/'') (drop 3 after),
                         Path = dropWhile (\<lambda>x. x \<noteq> CHR ''/'') (drop 3 after),
                         RawQuery = q\<rparr>
               else Inr \<lparr>Scheme = [], Host = [], Path = rest, RawQuery = q\<rparr>))"

definition simple_Resolve :: "URL \<Rightarrow> URL \<Rightarrow> URL" where
  "simple_Resolve b r =
     (if Path r = [] then b
      else if hd (Path r) = CHR ''/'' then b\<lparr>Path := Path r, RawQuery := RawQuery r\<rparr>
      else (let full = rev (dropWhile (\<lambda>x. x \<noteq> CHR ''/'') (rev (Path b))) @ Path r
            in b\<lparr>Path := (if take 1 full = ''/'' then full else CHR ''/'' # full),
                 RawQuery := RawQuery r\<rparr>))"

definition simple_ParseQuery :: "string \<Rightarrow> Values" where
  "simple_ParseQuery q =
     fold (\<lambda>kv. case cut CHR ''='' kv of (k, v) \<Rightarrow> Values_Add k v)
       (filter (\<lambda>kv. kv \<noteq> []) (fields CHR ''&'' q)) []"

fun str_le :: "string \<Rightarrow> string \<Rightarrow> bool" where
  "str_le [] ys = True"
| "str_le (x # xs) [] = False"
| "str_le (x # xs) (y # ys) =
     ((of_char x :: nat) < of_char y \<or> (x = y \<and> str_le xs ys))"

fun insert_key :: "string \<times> string list \<Rightarrow> Values \<Rightarrow> Values" where
  "insert_key e [] = [e]"
| "insert_key e (x # xs) = (if str_le (fst e) (fst x) then e # x # xs else x # insert_key e xs)"

fun join :: "string list \<Rightarrow> string" where
  "join [] = []"
| "join [x] = x"
| "join (x # y # zs) = x @ ''&'' @ join (y # zs)"

definition simple_Encode :: "Values \<Rightarrow> string" where
  "simple_Encode q =
     join (concat (map (\<lambda>(k, vs). map (\<lambda>v. k @ ''='' @ v) vs) (foldr insert_key q [])))"

definition simple_String :: "URL \<Rightarrow> string" where
  "simple_String u =
     (if Scheme u = [] then [] else Scheme u @ '':'') @
     (if Scheme u = [] \<and> Host u = [] then [] else ''//'' @ Host u) @
     (if Path u \<noteq> [] \<and> hd (Path u) \<noteq> CHR ''/'' \<and> Host u \<noteq> [] then ''/'' else []) @
     Path u @
     (if RawQuery u = [] then [] else CHR ''?'' # RawQuery u)"

definition lowers :: string where "lowers = ''abcdefghijklmnopqrstuvwxyz''"
definition uppers :: string where "uppers = ''ABCDEFGHIJKLMNOPQRSTUVWXYZ''"

definition is_token_char :: "char \<Rightarrow> bool" where
  "is_token_char ch = (ch \<in> set (uppers @ lowers @ ''0123456789'' @ ''!#$%&*+-.^_|~''))"

definition simple_validMethod :: "string \<Rightarrow> bool" where
  "simple_validMethod m = (m \<noteq> [] \<and> list_all is_token_char m)"

definition to_upper :: "char \<Rightarrow> char" where
  "to_upper ch = (case map_of (zip lowers uppers) ch of Some u \<Rightarrow> u | None \<Rightarrow> ch)"

definition to_lower :: "char \<Rightarrow> char" where
  "to_lower ch = (case map_of (zip uppers lowers) ch of Some l \<Rightarrow> l | None \<Rightarrow> ch)"

fun canonical :: "bool \<Rightarrow> string \<Rightarrow> string" where
  "canonical up [] = []"
| "canonical up (x # xs) =
     (if up then to_upper x else to_lower x) # canonical (x = CHR ''-'') xs"

definition simple_Canonical :: "string \<Rightarrow> string" where
  "simple_Canonical k = (if list_all is_token_char k then canonical True k else k)"

definition simple_stdlib :: stdlib where
  "simple_stdlib =
     \<lparr>url_Parse = simple_Parse, ResolveReference = simple_Resolve,
      ParseQuery = simple_ParseQuery, Encode = simple_Encode, URL_String = simple_String,
      validMethod = simple_validMethod, CanonicalMIMEHeaderKey = simple_Canonical,
      base64_EncodeToString = (\<lambda>s. s)\<rparr>"


text \<open>\<open>context.Background()\<close>.\<close>

definition Background :: Context where
  "Background = \<lparr>deadline = None, cancelAt = None\<rparr>"

text \<open>
  A round tripper that answers every request with the same status and body, after
  reading the whole request body, in no time.
\<close>

definition answering :: "int \<Rightarrow> string \<Rightarrow> transport" where
  "answering status body w =
     \<lparr>result = Response \<lparr>StatusCode = status, Header = [], Body = Some (NewReader body)\<rparr>,
      consumed = (case w_Body w of None \<Rightarrow> 0 | Some b \<Rightarrow> length (content b)),
      duration = 0\<rparr>"



text \<open>A round tripper that takes a given time to answer 200.\<close>

definition slow :: "nat \<Rightarrow> transport" where
  "slow d w =
     \<lparr>result = Response \<lparr>StatusCode = 200, Header = [], Body = Some (NewReader ''ok'')\<rparr>,
      consumed = (case w_Body w of None \<Rightarrow> 0 | Some b \<Rightarrow> length (content b)),
      duration = d\<rparr>"

text \<open>
  The client of the repository's \<open>Example\<close>, with the retry budget, the client timeout
  and the round tripper left open, and its request with the body left open.
\<close>

definition example_client :: "int \<Rightarrow> int \<Rightarrow> transport \<Rightarrow> CommonHTTPClient" where
  "example_client n tmo tr =
     \<lparr>baseURL = Some \<lparr>Scheme = ''https'', Host = ''jsonplaceholder.typicode.com'',
                        Path = [], RawQuery = []\<rparr>,
      defaultHeaders = [(''Authorization'', ''Bearer X'')],
      disableLogBody = False, disableLogHeaders = False, disableLogQuery = False,
      maxRetries = n, retryBackoff = 10,
      client = \<lparr>Timeout = tmo, Transport = tr\<rparr>\<rparr>"

definition example_opts :: "reader option \<Rightarrow> int \<Rightarrow> RequestOptions" where
  "example_opts body tmo =
     \<lparr>opt_Path = ''/posts'', opt_Method = ''GET'',
      opt_Headers = [(''Authorization'', ''Bearer Y'')],
      opt_QueryParams = [(''limit'', ''5'')],
      opt_Body = body, opt_Timeout = tmo\<rparr>"

text \<open>The request \<open>Do\<close> builds from them.\<close>

definition example_request :: "Context \<Rightarrow> reader option \<Rightarrow> request" where
  "example_request ctx body =
     \<lparr>rq_ctx = ctx, rq_Method = ''GET'',
      rq_URL = \<lparr>Scheme = ''https'', Host = ''jsonplaceholder.typicode.com'',
                Path = ''/posts'', RawQuery = ''limit=5''\<rparr>,
      rq_Header = [(''Authorization'', [''Bearer Y''])],
      rq_Body = body\<rparr>"


text \<open>A POST with a body.\<close>

definition example_post :: "string \<Rightarrow> RequestOptions" where
  "example_post body =
     \<lparr>opt_Path = ''/posts'', opt_Method = ''POST'', opt_Headers = [],
      opt_QueryParams = [], opt_Body = Some (NewReader body), opt_Timeout = 0\<rparr>"

text \<open>The configuration of the repository's \<open>Example\<close>: no \<open>HTTPClient\<close> is given.\<close>

definition example_config :: "int \<Rightarrow> ClientConfig" where
  "example_config n =
     \<lparr>cfg_BaseURL = Some \<lparr>Scheme = ''https'', Host = ''jsonplaceholder.typicode.com'',
                            Path = [], RawQuery = []\<rparr>,
      cfg_DefaultHeaders = [(''Authorization'', ''Bearer X'')],
      cfg_DisableLogBody = False, cfg_DisableLogHeaders = False, cfg_DisableLogQuery = False,
      cfg_MaxRetries = n, cfg_RetryBackoff = 10, cfg_HTTPClient = None\<rparr>"

definition r503 :: response where
  "r503 = \<lparr>StatusCode = 503, Header = [], Body = Some (NewReader ''unavailable'')\<rparr>"






section \<open>Notions the properties are stated with\<close>

text \<open>
  A reply the loop retries: a transport error, or a response with a status of 500 or
  more. It is the reply after which the \<open>break\<close> test of the loop fails.
\<close>

definition retriable :: "reply \<Rightarrow> bool" where
  "retriable r = (case result r of Response x \<Rightarrow> 500 \<le> StatusCode x | SendError e \<Rightarrow> True)"

text \<open>
  What the code after the loop hands to the caller for the result of the last attempt:
  the error, or the response with its body buffered.
\<close>

definition handed_back :: "send_result \<Rightarrow> outcome" where
  "handed_back x =
     (case x of
        SendError e \<Rightarrow> Failed e
      | Response r \<Rightarrow> (case buffer_body r of Inl e \<Rightarrow> Failed e | Inr (r1, b) \<Rightarrow> Returned r1))"

text \<open>The reply of attempt \<open>a\<close> from state \<open>st\<close>.\<close>

definition the_reply :: "CommonHTTPClient \<Rightarrow> request \<Rightarrow> int \<Rightarrow> loop_state \<Rightarrow> reply" where
  "the_reply c req a st = http_Client_Do (client c) (wire_of req a st)"

text \<open>
  The shape of the trace at every iteration of a loop started with no call made:
  every call but the last was retried, every call was handed the request's line,
  headers and context, and \<open>resp\<close> and \<open>lastErr\<close> are those of the last call.
\<close>

definition trace_ok :: "CommonHTTPClient \<Rightarrow> request \<Rightarrow> loop_state \<Rightarrow> bool" where
  "trace_ok c req st =
     ((\<forall>i. Suc i < length (calls st) \<longrightarrow> retriable (snd (calls st ! i))) \<and>
      (\<forall>i < length (calls st). w_attempt (fst (calls st ! i)) = i \<and>
          w_ctx (fst (calls st ! i)) = rq_ctx req \<and>
          w_Method (fst (calls st ! i)) = rq_Method req \<and>
          w_URL (fst (calls st ! i)) = rq_URL req \<and>
          w_Header (fst (calls st ! i)) = rq_Header req \<and>
          snd (calls st ! i) = http_Client_Do (client c) (fst (calls st ! i))) \<and>
      (calls st \<noteq> [] \<longrightarrow> resp st = resp_of (result (snd (last (calls st)))) \<and>
                            lastErr st = err_of (result (snd (last (calls st))))) \<and>
      (calls st = [] \<longrightarrow> resp st = None \<and> lastErr st = None))"

text \<open>
  How the attempts share \<open>req.Body\<close>: the first call is handed the request's reader,
  each later call the same reader where the call before left it.
\<close>

definition body_ok :: "request \<Rightarrow> loop_state \<Rightarrow> bool" where
  "body_ok req st =
     ((\<forall>i. Suc i < length (calls st) \<longrightarrow>
          w_Body (fst (calls st ! Suc i)) =
            map_option (advance (consumed (snd (calls st ! i)))) (w_Body (fst (calls st ! i)))) \<and>
      (calls st \<noteq> [] \<longrightarrow>
          w_Body (fst (calls st ! 0)) = rq_Body req \<and>
          reqBody st = map_option (advance (consumed (snd (last (calls st)))))
                         (w_Body (fst (last (calls st))))) \<and>
      (calls st = [] \<longrightarrow> reqBody st = rq_Body req))"




section \<open>The retry loop\<close>

lemma retry_loop_skip: "\<not> a \<le> maxRetries c \<Longrightarrow> retry_loop c req a st = st"
  by (simp add: retry_loop.simps)

lemma retry_loop_stop:
  "a \<le> maxRetries c \<Longrightarrow> terminal (send_attempt c req a st) \<Longrightarrow>
   retry_loop c req a st = send_attempt c req a st"
  by (subst retry_loop.simps) (simp add: Let_def)

lemma retry_loop_next:
  "a \<le> maxRetries c \<Longrightarrow> \<not> terminal (send_attempt c req a st) \<Longrightarrow>
   retry_loop c req a st = retry_loop c req (a + 1) (pause c a (send_attempt c req a st))"
  by (subst retry_loop.simps) (simp add: Let_def)

lemma retry_loop_rule:
  assumes init: "P a st"
    and step: "\<And>a st. a \<le> maxRetries c \<Longrightarrow> P a st \<Longrightarrow> \<not> terminal (send_attempt c req a st) \<Longrightarrow>
                 P (a + 1) (pause c a (send_attempt c req a st))"
    and stop: "\<And>a st. a \<le> maxRetries c \<Longrightarrow> P a st \<Longrightarrow> terminal (send_attempt c req a st) \<Longrightarrow>
                 Q (send_attempt c req a st)"
    and skip: "\<And>a st. \<not> a \<le> maxRetries c \<Longrightarrow> P a st \<Longrightarrow> Q st"
  shows "Q (retry_loop c req a st)"
  using init step stop skip
proof (induction c req a st rule: retry_loop.induct)
  case (1 c req a st)
  note init = "1.prems"(1) and step = "1.prems"(2) and stop = "1.prems"(3) and skip = "1.prems"(4)
  show ?case
  proof (cases "a \<le> maxRetries c")
    case False
    with init skip show ?thesis by (simp add: retry_loop_skip)
  next
    case True
    show ?thesis
    proof (cases "terminal (send_attempt c req a st)")
      case t: True
      with True init stop show ?thesis by (simp add: retry_loop_stop)
    next
      case f: False
      have p: "P (a + 1) (pause c a (send_attempt c req a st))"
        using step[OF True init f] .
      have "Q (retry_loop c req (a + 1) (pause c a (send_attempt c req a st)))"
        using "1.IH"[OF True refl f p] step stop skip by blast
      with True f show ?thesis by (simp add: retry_loop_next)
    qed
  qed
qed

lemma terminal_send_attempt:
  "terminal (send_attempt c req a st) = (\<not> retriable (the_reply c req a st))"
  by (auto simp: terminal_def send_attempt_def retriable_def Let_def the_reply_def resp_of_def err_of_def
           split: send_result.splits)

lemma calls_send_attempt:
  "calls (send_attempt c req a st) = calls st @ [(wire_of req a st, the_reply c req a st)]"
  by (simp add: send_attempt_def Let_def the_reply_def)

lemma resp_send_attempt: "resp (send_attempt c req a st) = resp_of (result (the_reply c req a st))"
  and lastErr_send_attempt: "lastErr (send_attempt c req a st) = err_of (result (the_reply c req a st))"
  by (simp_all add: send_attempt_def Let_def the_reply_def)

lemma pause_fields [simp]:
  "calls (pause c a st) = calls st" "resp (pause c a st) = resp st"
  "lastErr (pause c a st) = lastErr st" "reqBody (pause c a st) = reqBody st"
  by (simp_all add: pause_def Sleep_def)

lemma trace_ok_loop:
  "trace_ok c req (retry_loop c req 0 (initial req t)) \<and>
   length (calls (retry_loop c req 0 (initial req t))) \<le> nat (maxRetries c + 1) \<and>
   (0 \<le> maxRetries c \<longrightarrow> calls (retry_loop c req 0 (initial req t)) \<noteq> []) \<and>
   (calls (retry_loop c req 0 (initial req t)) \<noteq> [] \<longrightarrow>
      retriable (snd (last (calls (retry_loop c req 0 (initial req t))))) \<longrightarrow>
      length (calls (retry_loop c req 0 (initial req t))) = nat (maxRetries c + 1))"
proof (rule retry_loop_rule[where
    P = "\<lambda>a st. 0 \<le> a \<and> (a = 0 \<or> a \<le> maxRetries c + 1) \<and>
                length (calls st) = nat a \<and> trace_ok c req st \<and>
                (\<forall>i < length (calls st). retriable (snd (calls st ! i)))"], goal_cases)
  case 1
  show ?case by (simp add: initial_def trace_ok_def)
next
  case (2 a st)
  then show ?case
    apply (simp add: terminal_send_attempt)
    apply (simp add: trace_ok_def calls_send_attempt resp_send_attempt lastErr_send_attempt nth_append the_reply_def)
    apply (auto simp: wire_of_def nat_add_distrib less_Suc_eq)
    done
next
  case (3 a st)
  then show ?case
    apply (simp add: terminal_send_attempt)
    apply (simp add: trace_ok_def calls_send_attempt resp_send_attempt lastErr_send_attempt nth_append the_reply_def)
    apply (auto simp: wire_of_def nat_add_distrib less_Suc_eq)
    done
next
  case (4 a st)
  then show ?case
    by (auto simp: trace_ok_def)
qed


lemma logRequest_keeps:
  "rq_Header (fst (logRequest L c req body)) = rq_Header req"
  "rq_ctx (fst (logRequest L c req body)) = rq_ctx req"
  "rq_URL (fst (logRequest L c req body)) = rq_URL req"
  "rq_Method (fst (logRequest L c req body)) = rq_Method req"
  by (simp_all add: logRequest_def Let_def split_def split: option.splits)


lemma Do_reached:
  "build_request L c ctx t opts = Inr req \<Longrightarrow>
   Do L c ctx t opts =
     after_loop L c (fst (logRequest L c req (opt_Body opts))) [snd (logRequest L c req (opt_Body opts))]
       (retry_loop c (fst (logRequest L c req (opt_Body opts))) 0
          (initial (fst (logRequest L c req (opt_Body opts))) t))"
  by (simp add: Do_def execute_def split_def Let_def)

lemma attempts_after_loop [simp]: "attempts (after_loop L c req lg st) = calls st"
  by (simp add: after_loop_def split: option.splits sum.splits prod.splits)

lemma finished_after_loop [simp]: "finished (after_loop L c req lg st) = clock st"
  by (simp add: after_loop_def split: option.splits sum.splits prod.splits)

lemma outcome_after_loop:
  "lastErr st = err_of x \<Longrightarrow> resp st = resp_of x \<Longrightarrow>
   outcome (after_loop L c req lg st) = handed_back x"
  by (cases x) (simp_all add: after_loop_def handed_back_def err_of_def resp_of_def split: sum.splits prod.splits)

lemma outcome_after_loop_nil:
  "lastErr st = None \<Longrightarrow> resp st = None \<Longrightarrow> outcome (after_loop L c req lg st) = Panicked"
  by (simp add: after_loop_def)

lemma handed_back_not_Panicked [simp]: "handed_back x \<noteq> Panicked"
  by (simp add: handed_back_def split: send_result.splits sum.splits prod.splits)

lemma Do_summary:
  assumes b: "build_request L c ctx t opts = Inr req"
  shows "(\<forall>i. Suc i < length (attempts (Do L c ctx t opts)) \<longrightarrow>
             retriable (snd (attempts (Do L c ctx t opts) ! i)))"
    and "length (attempts (Do L c ctx t opts)) \<le> nat (maxRetries c + 1)"
    and "0 \<le> maxRetries c \<Longrightarrow> attempts (Do L c ctx t opts) \<noteq> []"
    and "attempts (Do L c ctx t opts) \<noteq> [] \<Longrightarrow>
           retriable (snd (last (attempts (Do L c ctx t opts)))) \<Longrightarrow>
           length (attempts (Do L c ctx t opts)) = nat (maxRetries c + 1)"
    and "attempts (Do L c ctx t opts) \<noteq> [] \<Longrightarrow>
           outcome (Do L c ctx t opts) = handed_back (result (snd (last (attempts (Do L c ctx t opts)))))"
    and "attempts (Do L c ctx t opts) = [] \<Longrightarrow> outcome (Do L c ctx t opts) = Panicked"
    and "i < length (attempts (Do L c ctx t opts)) \<Longrightarrow>
           w_attempt (fst (attempts (Do L c ctx t opts) ! i)) = i \<and>
           w_ctx (fst (attempts (Do L c ctx t opts) ! i)) = rq_ctx req \<and>
           w_Method (fst (attempts (Do L c ctx t opts) ! i)) = rq_Method req \<and>
           w_URL (fst (attempts (Do L c ctx t opts) ! i)) = rq_URL req \<and>
           w_Header (fst (attempts (Do L c ctx t opts) ! i)) = rq_Header req \<and>
           snd (attempts (Do L c ctx t opts) ! i) =
             http_Client_Do (client c) (fst (attempts (Do L c ctx t opts) ! i))"
proof -
  let ?rq = "fst (logRequest L c req (opt_Body opts))"
  let ?fs = "retry_loop c ?rq 0 (initial ?rq t)"
  note D = Do_reached[OF b]
  note T = trace_ok_loop[of c ?rq t]
  from T have ok: "trace_ok c ?rq ?fs" by blast
  have A: "attempts (Do L c ctx t opts) = calls ?fs" by (simp add: D)
  from ok have ok1: "\<And>i. Suc i < length (calls ?fs) \<Longrightarrow> retriable (snd (calls ?fs ! i))"
    unfolding trace_ok_def by blast
  from ok have ok2: "\<And>i. i < length (calls ?fs) \<Longrightarrow>
          w_attempt (fst (calls ?fs ! i)) = i \<and>
          w_ctx (fst (calls ?fs ! i)) = rq_ctx ?rq \<and>
          w_Method (fst (calls ?fs ! i)) = rq_Method ?rq \<and>
          w_URL (fst (calls ?fs ! i)) = rq_URL ?rq \<and>
          w_Header (fst (calls ?fs ! i)) = rq_Header ?rq \<and>
          snd (calls ?fs ! i) = http_Client_Do (client c) (fst (calls ?fs ! i))"
    unfolding trace_ok_def by blast
  from ok have ok3: "calls ?fs \<noteq> [] \<Longrightarrow> resp ?fs = resp_of (result (snd (last (calls ?fs)))) \<and>
                            lastErr ?fs = err_of (result (snd (last (calls ?fs))))"
    unfolding trace_ok_def by blast
  from ok have ok4: "calls ?fs = [] \<Longrightarrow> resp ?fs = None \<and> lastErr ?fs = None"
    unfolding trace_ok_def by blast
  show "(\<forall>i. Suc i < length (attempts (Do L c ctx t opts)) \<longrightarrow>
             retriable (snd (attempts (Do L c ctx t opts) ! i)))"
    unfolding A using ok1 by blast
  show "length (attempts (Do L c ctx t opts)) \<le> nat (maxRetries c + 1)"
    unfolding A using T by blast
  show "0 \<le> maxRetries c \<Longrightarrow> attempts (Do L c ctx t opts) \<noteq> []"
    unfolding A using T by blast
  show "attempts (Do L c ctx t opts) \<noteq> [] \<Longrightarrow>
           retriable (snd (last (attempts (Do L c ctx t opts)))) \<Longrightarrow>
           length (attempts (Do L c ctx t opts)) = nat (maxRetries c + 1)"
    unfolding A using T by blast
  show "attempts (Do L c ctx t opts) \<noteq> [] \<Longrightarrow>
           outcome (Do L c ctx t opts) = handed_back (result (snd (last (attempts (Do L c ctx t opts)))))"
    unfolding A using ok3 by (simp add: D outcome_after_loop)
  show "attempts (Do L c ctx t opts) = [] \<Longrightarrow> outcome (Do L c ctx t opts) = Panicked"
    unfolding A using ok4 by (simp add: D outcome_after_loop_nil)
  show "i < length (attempts (Do L c ctx t opts)) \<Longrightarrow>
           w_attempt (fst (attempts (Do L c ctx t opts) ! i)) = i \<and>
           w_ctx (fst (attempts (Do L c ctx t opts) ! i)) = rq_ctx req \<and>
           w_Method (fst (attempts (Do L c ctx t opts) ! i)) = rq_Method req \<and>
           w_URL (fst (attempts (Do L c ctx t opts) ! i)) = rq_URL req \<and>
           w_Header (fst (attempts (Do L c ctx t opts) ! i)) = rq_Header req \<and>
           snd (attempts (Do L c ctx t opts) ! i) =
             http_Client_Do (client c) (fst (attempts (Do L c ctx t opts) ! i))"
    unfolding A using ok2[of i] by (simp add: logRequest_keeps)
qed

lemma handed_back_Response:
  "(Body x = None \<longrightarrow> handed_back (Response x) = Returned x) \<and>
   (\<forall>b. Body x = Some b \<longrightarrow> failure b = None \<longrightarrow>
        handed_back (Response x) = Returned (x\<lparr>Body := Some (NewReader (content b))\<rparr>)) \<and>
   (\<forall>b e. Body x = Some b \<longrightarrow> failure b = Some e \<longrightarrow> handed_back (Response x) = Failed e)"
  by (auto simp: handed_back_def buffer_body_def ReadAll_def)

lemma handed_back_SendError [simp]: "handed_back (SendError e) = Failed e"
  by (simp add: handed_back_def)

lemma retriable_Response: "result r = Response x \<Longrightarrow> retriable r = (500 \<le> StatusCode x)"
  by (simp add: retriable_def)







section \<open>The request body across attempts\<close>

lemma body_ok_send_attempt:
  assumes "body_ok req st"
  shows "body_ok req (send_attempt c req a st)"
proof -
  let ?w = "wire_of req a st" and ?r = "the_reply c req a st"
  have c: "calls (send_attempt c req a st) = calls st @ [(?w, ?r)]" by (rule calls_send_attempt)
  have b: "reqBody (send_attempt c req a st) = map_option (advance (consumed ?r)) (reqBody st)"
    by (simp add: send_attempt_def Let_def the_reply_def)
  have w: "w_Body ?w = reqBody st" by (simp add: wire_of_def)
  show ?thesis
  proof (cases "calls st = []")
    case True
    with assms have "reqBody st = rq_Body req" by (simp add: body_ok_def)
    with True show ?thesis by (simp add: body_ok_def c b w)
  next
    case False
    with assms have
      1: "\<And>i. Suc i < length (calls st) \<Longrightarrow>
          w_Body (fst (calls st ! Suc i)) =
            map_option (advance (consumed (snd (calls st ! i)))) (w_Body (fst (calls st ! i)))"
      and 2: "w_Body (fst (calls st ! 0)) = rq_Body req"
      and 3: "reqBody st = map_option (advance (consumed (snd (last (calls st)))))
                         (w_Body (fst (last (calls st))))"
      by (simp_all add: body_ok_def)
    have l: "last (calls st) = calls st ! (length (calls st) - 1)"
      using False by (simp add: last_conv_nth)
    have step: "w_Body (fst ((calls st @ [(?w, ?r)]) ! Suc i)) =
            map_option (advance (consumed (snd ((calls st @ [(?w, ?r)]) ! i))))
              (w_Body (fst ((calls st @ [(?w, ?r)]) ! i)))"
      if "Suc i < length (calls st @ [(?w, ?r)])" for i
    proof (cases "Suc i < length (calls st)")
      case True
      then show ?thesis using 1[OF True] by (simp add: nth_append)
    next
      case f: False
      with that have i: "Suc i = length (calls st)" by simp
      then have "i = length (calls st) - 1" by simp
      with i 3 l w show ?thesis by (simp add: nth_append)
    qed
    show ?thesis
      unfolding body_ok_def c
      using False 2 step by (simp add: nth_append b w)
  qed
qed

lemma body_ok_pause: "body_ok req (pause c a st) = body_ok req st"
  by (simp add: body_ok_def)

lemma body_ok_loop: "body_ok req (retry_loop c req 0 (initial req t))"
  by (rule retry_loop_rule[where P = "\<lambda>a st. body_ok req st"])
     (simp_all add: body_ok_send_attempt body_ok_pause, simp add: body_ok_def initial_def)

lemma logRequest_Body:
  "rq_Body req = body \<Longrightarrow>
   rq_Body (fst (logRequest L c req body)) =
     (case body of
        None \<Rightarrow> None
      | Some b \<Rightarrow> if disableLogBody c then Some b else Some (NewReader (content b)))"
  by (simp add: logRequest_def Let_def split_def ReadAll_def split: option.splits)

lemma build_request_Body:
  "build_request L c ctx t opts = Inr req \<Longrightarrow> rq_Body req = opt_Body opts"
  by (auto simp: build_request_def NewRequestWithContext_def Let_def apply_headers_def
        apply_timeout_def split: sum.splits if_splits)

lemma attempts_share_one_body_reader:
  assumes b: "build_request L c ctx t opts = Inr req"
  shows "(attempts (Do L c ctx t opts) \<noteq> [] \<longrightarrow>
            w_Body (fst (attempts (Do L c ctx t opts) ! 0)) =
              (case opt_Body opts of
                 None \<Rightarrow> None
               | Some b \<Rightarrow> if disableLogBody c then Some b else Some (NewReader (content b)))) \<and>
         (\<forall>i. Suc i < length (attempts (Do L c ctx t opts)) \<longrightarrow>
            w_Body (fst (attempts (Do L c ctx t opts) ! Suc i)) =
              map_option (advance (consumed (snd (attempts (Do L c ctx t opts) ! i))))
                (w_Body (fst (attempts (Do L c ctx t opts) ! i))))"
proof -
  let ?rq = "fst (logRequest L c req (opt_Body opts))"
  let ?fs = "retry_loop c ?rq 0 (initial ?rq t)"
  have A: "attempts (Do L c ctx t opts) = calls ?fs" by (simp add: Do_reached[OF b])
  have ok: "body_ok ?rq ?fs" by (rule body_ok_loop)
  have rb: "rq_Body ?rq =
      (case opt_Body opts of
         None \<Rightarrow> None
       | Some b \<Rightarrow> if disableLogBody c then Some b else Some (NewReader (content b)))"
    using build_request_Body[OF b] by (rule logRequest_Body)
  from ok have 1: "calls ?fs \<noteq> [] \<Longrightarrow> w_Body (fst (calls ?fs ! 0)) = rq_Body ?rq"
    and 2: "\<And>i. Suc i < length (calls ?fs) \<Longrightarrow>
          w_Body (fst (calls ?fs ! Suc i)) =
            map_option (advance (consumed (snd (calls ?fs ! i)))) (w_Body (fst (calls ?fs ! i)))"
    unfolding body_ok_def by blast+
  show ?thesis unfolding A using 1 2 rb by simp
qed


section \<open>Headers and query values\<close>
















section \<open>Running the clients on the examples\<close>

lemmas lib_defs = simple_stdlib_def simple_Parse_def simple_Resolve_def simple_ParseQuery_def
  simple_Encode_def simple_String_def simple_validMethod_def simple_Canonical_def
  is_CTL_def cut_def is_token_char_def lowers_def uppers_def to_upper_def to_lower_def

lemma build_example:
  "build_request simple_stdlib (example_client n tmo tr) ctx t (example_opts body d) =
   Inr (example_request (if d > 0 then WithTimeout ctx t d else ctx) body)"
  by (simp add: build_request_def request_URL_def add_query_def set_params_def
        NewRequestWithContext_def apply_headers_def apply_timeout_def set_headers_def
        Header_Set_def example_client_def example_opts_def example_request_def lib_defs Let_def)


lemma run_503:
  "map (result \<circ> snd)
     (attempts (Do simple_stdlib (example_client 2 30 (answering 503 ''unavailable''))
                  Background 0 (example_opts None 0))) =
     [Response r503, Response r503, Response r503]"
  "outcome (Do simple_stdlib (example_client 2 30 (answering 503 ''unavailable''))
              Background 0 (example_opts None 0)) = Returned r503"
  "list_all (\<lambda>(w, r). retriable r)
     (attempts (Do simple_stdlib (example_client 2 30 (answering 503 ''unavailable''))
                  Background 0 (example_opts None 0)))"
  by code_simp+


lemma NewCommonHTTPClient_example:
  "NewCommonHTTPClient tr (example_config n) = example_client n 30000000000 tr"
  by (simp add: NewCommonHTTPClient_def example_config_def example_client_def)




lemma resp_or_err: "\<not> (resp_of x = None \<and> err_of x = None)"
  by (cases x) (simp_all add: resp_of_def err_of_def)

section \<open>The claims\<close>

text \<open>
  Claim C10. For a client with \<open>MaxRetries \<ge> 0\<close>, every call of \<open>Do\<close> that reaches
  the send loop makes at least one call of \<open>c.client.Do\<close> before the loop exits, so the
  code after the loop never sees \<open>resp\<close> and \<open>lastErr\<close> both nil, and \<open>Do\<close> does not
  panic. The guarantee rests on \<open>MaxRetries \<ge> 0\<close>: with a negative \<open>MaxRetries\<close> the loop
  body is skipped, nothing is sent, both stay nil, and \<open>resp.Body\<close> panics.
\<close>

theorem loop_sends_at_least_once:
  "(0 \<le> maxRetries c \<longrightarrow>
      calls (retry_loop c req 0 (initial req t)) \<noteq> [] \<and>
      \<not> (resp (retry_loop c req 0 (initial req t)) = None \<and>
         lastErr (retry_loop c req 0 (initial req t)) = None)) \<and>
   (maxRetries c < 0 \<longrightarrow>
      calls (retry_loop c req 0 (initial req t)) = [] \<and>
      resp (retry_loop c req 0 (initial req t)) = None \<and>
      lastErr (retry_loop c req 0 (initial req t)) = None) \<and>
   (build_request L c ctx t opts = Inr rq \<longrightarrow>
      (0 \<le> maxRetries c \<longrightarrow>
         attempts (Do L c ctx t opts) \<noteq> [] \<and> outcome (Do L c ctx t opts) \<noteq> Panicked) \<and>
      (maxRetries c < 0 \<longrightarrow>
         attempts (Do L c ctx t opts) = [] \<and> outcome (Do L c ctx t opts) = Panicked))"
proof (intro conjI impI)
  let ?fs = "retry_loop c req 0 (initial req t)"
  note T = trace_ok_loop[of c req t]
  from T have ok: "calls ?fs \<noteq> [] \<Longrightarrow> resp ?fs = resp_of (result (snd (last (calls ?fs)))) \<and>
                            lastErr ?fs = err_of (result (snd (last (calls ?fs))))"
    unfolding trace_ok_def by blast
  { assume n: "0 \<le> maxRetries c"
    with T show ne: "calls ?fs \<noteq> []" by blast
    from ok[OF ne] show "\<not> (resp ?fs = None \<and> lastErr ?fs = None)"
      using resp_or_err by metis }
  { assume n: "maxRetries c < 0"
    then have "?fs = initial req t" by (simp add: retry_loop_skip)
    then show "calls ?fs = []" "resp ?fs = None" "lastErr ?fs = None"
      by (simp_all add: initial_def) }
  { assume b: "build_request L c ctx t opts = Inr rq"
    { assume n: "0 \<le> maxRetries c"
      from Do_summary(3)[OF b n] show ne: "attempts (Do L c ctx t opts) \<noteq> []" .
      from Do_summary(5)[OF b ne] show "outcome (Do L c ctx t opts) \<noteq> Panicked" by simp }
    { assume n: "maxRetries c < 0"
      from Do_summary(2)[OF b] n show e: "attempts (Do L c ctx t opts) = []" by simp
      from Do_summary(6)[OF b e] show "outcome (Do L c ctx t opts) = Panicked" . } }
qed

theorem loop_sends_at_least_once_witness:
  "calls (retry_loop (example_client 2 30 (answering 503 ''unavailable''))
            (example_request Background None) 0 (initial (example_request Background None) 0)) \<noteq> [] \<and>
   attempts (Do simple_stdlib (example_client 2 30 (answering 503 ''unavailable'')) Background 0
               (example_opts None 0)) \<noteq> [] \<and>
   outcome (Do simple_stdlib (example_client 2 30 (answering 503 ''unavailable'')) Background 0
               (example_opts None 0)) \<noteq> Panicked \<and>
   attempts (Do simple_stdlib (example_client (- 1) 30 (answering 503 ''unavailable'')) Background 0
               (example_opts None 0)) = [] \<and>
   outcome (Do simple_stdlib (example_client (- 1) 30 (answering 503 ''unavailable'')) Background 0
               (example_opts None 0)) = Panicked"
proof -
  have p: "(0::int) \<le> maxRetries (example_client 2 30 (answering 503 ''unavailable''))"
    and n: "maxRetries (example_client (- 1) 30 (answering 503 ''unavailable'')) < 0"
    by (simp_all add: example_client_def)
  have b: "build_request simple_stdlib (example_client k 30 (answering 503 ''unavailable''))
             Background 0 (example_opts None 0) = Inr (example_request Background None)" for k
    by (simp add: build_example)
  show ?thesis
    using loop_sends_at_least_once[of "example_client 2 30 (answering 503 ''unavailable'')"
            "example_request Background None" 0 simple_stdlib Background "example_opts None 0"
            "example_request Background None"]
          loop_sends_at_least_once[of "example_client (- 1) 30 (answering 503 ''unavailable'')"
            "example_request Background None" 0 simple_stdlib Background "example_opts None 0"
            "example_request Background None"]
          p n b
    by simp
qed




text \<open>
  Claim C1, as the code has it. With \<open>maxRetries = N \<ge> 0\<close>, when every attempt ends in a
  transport error or a response with a status of 500 or more, \<open>Do\<close> makes exactly
  \<open>N + 1\<close> calls of \<open>c.client.Do\<close>. If the last attempt failed in the transport, its
  error is returned. If it was answered with a 5xx, that response itself is returned,
  with a nil error and its body buffered: there is no server error value.
\<close>

theorem exhausted_retries_hand_back_last_reply:
  assumes b: "build_request L c ctx t opts = Inr req"
    and n: "0 \<le> maxRetries c"
    and r: "\<forall>(w, r) \<in> set (attempts (Do L c ctx t opts)). retriable r"
  shows "length (attempts (Do L c ctx t opts)) = nat (maxRetries c) + 1 \<and>
         (\<forall>e. result (snd (last (attempts (Do L c ctx t opts)))) = SendError e \<longrightarrow>
              outcome (Do L c ctx t opts) = Failed e) \<and>
         (\<forall>x. result (snd (last (attempts (Do L c ctx t opts)))) = Response x \<longrightarrow>
              500 \<le> StatusCode x \<and>
              (Body x = None \<longrightarrow> outcome (Do L c ctx t opts) = Returned x) \<and>
              (\<forall>b. Body x = Some b \<longrightarrow> failure b = None \<longrightarrow>
                   outcome (Do L c ctx t opts) =
                     Returned (x\<lparr>Body := Some (NewReader (content b))\<rparr>)) \<and>
              (\<forall>b e. Body x = Some b \<longrightarrow> failure b = Some e \<longrightarrow>
                   outcome (Do L c ctx t opts) = Failed e))"
proof -
  let ?as = "attempts (Do L c ctx t opts)"
  have ne: "?as \<noteq> []" using Do_summary(3)[OF b n] .
  then have "last ?as \<in> set ?as" by simp
  with r have rl: "retriable (snd (last ?as))" by (auto simp: case_prod_beta)
  have len: "length ?as = nat (maxRetries c) + 1"
    using Do_summary(4)[OF b ne rl] n by (simp add: nat_add_distrib)
  have out: "outcome (Do L c ctx t opts) = handed_back (result (snd (last ?as)))"
    using Do_summary(5)[OF b ne] .
  show ?thesis
  proof (intro conjI allI impI)
    show "length ?as = nat (maxRetries c) + 1" by (rule len)
  next
    fix e assume "result (snd (last ?as)) = SendError e"
    with out show "outcome (Do L c ctx t opts) = Failed e" by simp
  next
    fix x assume x: "result (snd (last ?as)) = Response x"
    with rl show "500 \<le> StatusCode x" by (simp add: retriable_Response)
    from x out have o: "outcome (Do L c ctx t opts) = handed_back (Response x)" by simp
    { assume "Body x = None"
      with o handed_back_Response[of x] show "outcome (Do L c ctx t opts) = Returned x" by simp }
    { fix b assume "Body x = Some b" "failure b = None"
      with o handed_back_Response[of x]
      show "outcome (Do L c ctx t opts) = Returned (x\<lparr>Body := Some (NewReader (content b))\<rparr>)"
        by simp }
    { fix b e assume "Body x = Some b" "failure b = Some e"
      with o handed_back_Response[of x] show "outcome (Do L c ctx t opts) = Failed e" by simp }
  qed
qed

theorem exhausted_retries_hand_back_last_reply_witness:
  "length (attempts (Do simple_stdlib (example_client 2 30 (answering 503 ''unavailable''))
                  Background 0 (example_opts None 0))) = 3 \<and>
   outcome (Do simple_stdlib (example_client 2 30 (answering 503 ''unavailable''))
              Background 0 (example_opts None 0)) = Returned r503"
proof -
  have b: "build_request simple_stdlib (example_client 2 30 (answering 503 ''unavailable''))
             Background 0 (example_opts None 0) = Inr (example_request Background None)"
    by (simp add: build_example)
  have n: "0 \<le> maxRetries (example_client 2 30 (answering 503 ''unavailable''))"
    by (simp add: example_client_def)
  have r: "\<forall>(w, r) \<in> set (attempts (Do simple_stdlib (example_client 2 30 (answering 503 ''unavailable''))
                  Background 0 (example_opts None 0))). retriable r"
    using run_503(3) by (simp add: list_all_iff)
  have m: "maxRetries (example_client 2 30 (answering 503 ''unavailable'')) = 2"
    by (simp add: example_client_def)
  from exhausted_retries_hand_back_last_reply[OF b n r] have
    "length (attempts (Do simple_stdlib (example_client 2 30 (answering 503 ''unavailable''))
                  Background 0 (example_opts None 0))) = 3"
    by (simp add: m)
  with run_503(2) show ?thesis by simp
qed


text \<open>
  Claim C1 as stated fails: with \<open>maxRetries = 2\<close> and a round tripper that always
  answers 503, the three attempts are made and \<open>Do\<close> returns the 503 response, not an
  error.
\<close>

theorem server_error_counterexample:
  "map (result \<circ> snd)
     (attempts (Do simple_stdlib (example_client 2 30 (answering 503 ''unavailable''))
                  Background 0 (example_opts None 0))) =
     [Response r503, Response r503, Response r503] \<and>
   outcome (Do simple_stdlib (example_client 2 30 (answering 503 ''unavailable''))
              Background 0 (example_opts None 0)) = Returned r503"
  by (simp add: run_503)









text \<open>
  Claim C2 fails on the code: \<open>req.Body\<close> is one reader, shared by all attempts, each
  attempt reading on from where the one before stopped. With \<open>maxRetries = 1\<close>, a body
  of seven bytes and a server that reads the request and answers 503, the first attempt
  is handed the reader with its seven bytes and the retry is handed the same reader at
  its end: it sends no body bytes.
\<close>

theorem retry_sends_drained_body:
  "map (w_Body \<circ> fst)
     (attempts (Do simple_stdlib (example_client 1 30 (answering 503 ''unavailable''))
                  Background 0 (example_post ''title=x''))) =
     [Some (NewReader ''title=x''), Some (NewReader [])] \<and>
   map (result \<circ> snd)
     (attempts (Do simple_stdlib (example_client 1 30 (answering 503 ''unavailable''))
                  Background 0 (example_post ''title=x''))) =
     [Response r503, Response r503]"
  by code_simp

text \<open>
  Claim C5 fails on the code: the per-request timeout only derives a context with a
  deadline; the client's own \<open>Timeout\<close> still bounds every attempt. With the default
  client (30 seconds), a per-request timeout of 60 seconds and a server that answers
  after 40 seconds, the attempt is cut at 30 seconds and \<open>Do\<close> returns the client's
  timeout error.
\<close>

theorem longer_request_timeout_does_not_override:
  "Timeout (client (NewCommonHTTPClient (slow 40000000000) (example_config 0))) = 30000000000 \<and>
   outcome (Do simple_stdlib (NewCommonHTTPClient (slow 40000000000) (example_config 0))
              Background 0 (example_opts None 60000000000)) = Failed ClientTimeout \<and>
   finished (Do simple_stdlib (NewCommonHTTPClient (slow 40000000000) (example_config 0))
              Background 0 (example_opts None 60000000000)) = 30000000000"
proof -
  let ?c = "example_client 0 30000000000 (slow 40000000000)"
  let ?rq = "example_request (WithTimeout Background 0 60000000000) None"
  have b: "build_request simple_stdlib ?c Background 0 (example_opts None 60000000000) = Inr ?rq"
    by (simp add: build_example)
  have lr: "fst (logRequest simple_stdlib ?c ?rq None) = ?rq"
    by (simp add: logRequest_def)
  have w: "wire_of ?rq 0 (initial ?rq 0) =
      \<lparr>w_attempt = 0, w_now = 0, w_ctx = \<lparr>deadline = Some 60000000000, cancelAt = None\<rparr>,
       w_Method = rq_Method ?rq, w_URL = rq_URL ?rq, w_Header = rq_Header ?rq, w_Body = None\<rparr>"
    by (simp add: wire_of_def initial_def example_request_def WithTimeout_def Background_def)
  have r: "the_reply ?c ?rq 0 (initial ?rq 0) =
      \<lparr>result = SendError ClientTimeout, consumed = 0, duration = 30000000000\<rparr>"
    unfolding the_reply_def w
    by (simp add: http_Client_Do_def ctx_Err_def ctx_done_at_def client_limit_def example_client_def slow_def)
  have nt: "\<not> terminal (send_attempt ?c ?rq 0 (initial ?rq 0))"
    by (simp add: terminal_send_attempt r retriable_def)
  have m: "maxRetries ?c = 0" by (simp add: example_client_def)
  have "retry_loop ?c ?rq 0 (initial ?rq 0) = retry_loop ?c ?rq 1 (pause ?c 0 (send_attempt ?c ?rq 0 (initial ?rq 0)))"
    using retry_loop_next[of 0 ?c ?rq "initial ?rq 0"] nt m by simp
  also have "\<dots> = send_attempt ?c ?rq 0 (initial ?rq 0)"
    by (simp add: retry_loop_skip m pause_def)
  finally have fs: "retry_loop ?c ?rq 0 (initial ?rq 0) = send_attempt ?c ?rq 0 (initial ?rq 0)" .
  have sa: "lastErr (send_attempt ?c ?rq 0 (initial ?rq 0)) = Some ClientTimeout"
       "clock (send_attempt ?c ?rq 0 (initial ?rq 0)) = 30000000000"
    using r by (simp_all add: send_attempt_def Let_def the_reply_def err_of_def initial_def)
  have D: "Do simple_stdlib ?c Background 0 (example_opts None 60000000000) =
      after_loop simple_stdlib ?c ?rq [snd (logRequest simple_stdlib ?c ?rq None)]
        (send_attempt ?c ?rq 0 (initial ?rq 0))"
    using Do_reached[OF b] by (simp add: lr fs example_opts_def)
  have o: "outcome (Do simple_stdlib ?c Background 0 (example_opts None 60000000000)) = Failed ClientTimeout"
    unfolding D by (simp add: after_loop_def sa)
  have f: "finished (Do simple_stdlib ?c Background 0 (example_opts None 60000000000)) = 30000000000"
    unfolding D by (simp add: sa)
  have t: "Timeout (client ?c) = 30000000000" by (simp add: example_client_def)
  from o f t show ?thesis by (simp add: NewCommonHTTPClient_example)
qed









end
